theory Spec2Isabelle
  imports Main "HOL-Library.Char_ord" "HOL-Library.List_Lexorder"
begin

section \<open>The notes service of \<open>backend/main.py\<close>\<close>

text \<open>
  The service keeps two SQLite tables, \<open>users\<close> and \<open>notes\<close>, and offers
  registration, login and five note operations behind a bearer token. Every
  handler is a function from the database (and the readings of the outside world
  it consumes: the clock, the bcrypt salt) to a result and the database after the
  call. A raised \<open>HTTPException\<close> is the \<open>Inl\<close> branch of the result.

  Three collaborators are libraries, not code of the service, and are idealised:
  \<^item> SQLite: a table is the list of its rows in insertion order; \<open>fetchone\<close> of a
    \<open>SELECT\<close> is the first row that satisfies the \<open>WHERE\<close> clause;
    \<open>CURRENT_TIMESTAMP\<close> is the text \<open>YYYY-MM-DD HH:MM:SS\<close>, read from the
    store's clock once per statement and passed to the handler as \<open>ts\<close>;
  \<^item> bcrypt: a digest is the pair of the salt and the password it was computed
    from, and \<open>checkpw\<close> accepts exactly that password;
  \<^item> PyJWT with HS256: a signature is the pair of the key and the payload it was
    computed over, so it verifies under a key exactly when it was made with that
    key over that payload; time is counted in whole seconds.
\<close>

subsection \<open>Configuration\<close>

definition SECRET_KEY :: string where
  "SECRET_KEY = ''your-secret-key-change-in-production''"

definition ACCESS_TOKEN_EXPIRE_MINUTES :: int where
  "ACCESS_TOKEN_EXPIRE_MINUTES = 30"

subsection \<open>Request and response models\<close>

type_synonym timestamp = string

record UserCreate =
  uc_username :: string
  uc_password :: string

record UserLogin =
  ul_username :: string
  ul_password :: string

record NoteCreate =
  nc_title :: string
  nc_content :: string

record NoteUpdate =
  nu_title :: string
  nu_content :: string
  nu_updated_at :: timestamp

text \<open>\<open>Note\<close> is both the response model and a row of the table \<open>notes\<close>: the
  handlers build it with \<open>Note(**dict(row))\<close>.\<close>

record Note =
  note_id :: int
  title :: string
  content :: string
  owner_id :: int
  created_at :: timestamp
  updated_at :: timestamp

record ConflictError =
  ce_error :: string
  ce_message :: string
  ce_current_note :: Note
  ce_your_changes :: "(string \<times> string) list"

datatype detail = Message string | Conflict ConflictError

text \<open>\<open>TypeError\<close> stands for \<open>Note(**dict(None))\<close>, the only other exception a
  handler's own code can raise.\<close>

datatype exn = HTTPException int detail | TypeError

subsection \<open>The database\<close>

record user_row =
  user_id :: int
  username :: string
  password_hash :: "string \<times> string"
  user_created_at :: timestamp

text \<open>\<open>users_seq\<close> and \<open>notes_seq\<close> are the rows of \<open>sqlite_sequence\<close>: the
  largest rowid an \<open>AUTOINCREMENT\<close> table has ever handed out.\<close>

record db =
  tbl_users :: "user_row list"
  tbl_notes :: "Note list"
  users_seq :: int
  notes_seq :: int

definition init_db :: db where
  "init_db = \<lparr>tbl_users = [], tbl_notes = [], users_seq = 0, notes_seq = 0\<rparr>"

text \<open>The trigger \<open>update_notes_timestamp\<close>, fired after the update of a row
  \<open>NEW\<close>: \<open>UPDATE notes SET updated_at = CURRENT_TIMESTAMP WHERE id = NEW.id\<close>.
  Its own update does not fire it again (recursive triggers are off).\<close>

definition update_notes_timestamp :: "timestamp \<Rightarrow> Note \<Rightarrow> Note list \<Rightarrow> Note list" where
  "update_notes_timestamp ts new rows =
     map (\<lambda>n. if note_id n = note_id new then n\<lparr>updated_at := ts\<rparr> else n) rows"

text \<open>\<open>UPDATE notes SET title = ?, content = ? WHERE id = ? AND owner_id = ?\<close>,
  followed by the trigger once for each row the statement updated.\<close>

definition sql_update_note ::
  "timestamp \<Rightarrow> string \<Rightarrow> string \<Rightarrow> int \<Rightarrow> int \<Rightarrow> Note list \<Rightarrow> Note list" where
  "sql_update_note ts t c nid uid rows =
     (let hit = (\<lambda>n. note_id n = nid \<and> owner_id n = uid);
          rows1 = map (\<lambda>n. if hit n then n\<lparr>title := t, content := c\<rparr> else n) rows
      in fold (update_notes_timestamp ts) (filter hit rows1) rows1)"

text \<open>\<open>DELETE FROM notes WHERE id = ? AND owner_id = ?\<close>.\<close>

definition sql_delete_note :: "int \<Rightarrow> int \<Rightarrow> Note list \<Rightarrow> Note list" where
  "sql_delete_note nid uid rows =
     filter (\<lambda>n. \<not> (note_id n = nid \<and> owner_id n = uid)) rows"

text \<open>\<open>SELECT * FROM notes WHERE id = ? AND owner_id = ?\<close> and
  \<open>SELECT * FROM notes WHERE id = ?\<close>, each read with \<open>fetchone\<close>.\<close>

definition select_owned :: "db \<Rightarrow> int \<Rightarrow> int \<Rightarrow> Note option" where
  "select_owned d nid uid = find (\<lambda>n. note_id n = nid \<and> owner_id n = uid) (tbl_notes d)"

definition select_by_id :: "db \<Rightarrow> int \<Rightarrow> Note option" where
  "select_by_id d nid = find (\<lambda>n. note_id n = nid) (tbl_notes d)"

text \<open>\<open>SELECT id, username, password_hash FROM users WHERE username = ?\<close>.\<close>

definition select_user :: "db \<Rightarrow> string \<Rightarrow> user_row option" where
  "select_user d name = find (\<lambda>u. username u = name) (tbl_users d)"

subsection \<open>Passwords and tokens\<close>

definition hashpw :: "string \<Rightarrow> string \<Rightarrow> string \<times> string" where
  "hashpw password salt = (salt, password)"

definition checkpw :: "string \<Rightarrow> string \<times> string \<Rightarrow> bool" where
  "checkpw password hashed = (snd hashed = password)"

definition hash_password :: "string \<Rightarrow> string \<Rightarrow> string \<times> string" where
  "hash_password gensalt password = hashpw password gensalt"

definition verify_password :: "string \<Rightarrow> string \<times> string \<Rightarrow> bool" where
  "verify_password password hashed = checkpw password hashed"

record claims =
  claim_user_id :: "int option"
  claim_exp :: "int option"

datatype signature = HS256 string claims

text \<open>A bearer string either has the three parts of a JWT with a payload that
  decodes, or it does not.\<close>

datatype token = Undecodable string | JWT claims signature


definition jwt_encode :: "claims \<Rightarrow> string \<Rightarrow> token" where
  "jwt_encode payload key = JWT payload (HS256 key payload)"


definition create_access_token :: "int \<Rightarrow> claims \<Rightarrow> token" where
  "create_access_token utcnow data =
     (let expire = utcnow + ACCESS_TOKEN_EXPIRE_MINUTES * 60;
          to_encode = data\<lparr>claim_exp := Some expire\<rparr>
      in jwt_encode to_encode SECRET_KEY)"


subsection \<open>Auth routes\<close>

record register_response =
  rr_id :: int
  rr_username :: string
  rr_message :: string

definition register ::
  "string \<Rightarrow> timestamp \<Rightarrow> db \<Rightarrow> UserCreate \<Rightarrow> (exn + register_response) \<times> db" where
  "register gensalt ts d user =
     (case select_user d (uc_username user) of
        Some existing \<Rightarrow> (Inl (HTTPException 400 (Message ''Username already exists'')), d)
      | None \<Rightarrow>
          (let hashed_pw = hash_password gensalt (uc_password user);
               uid = users_seq d + 1;
               d' = d\<lparr>tbl_users := tbl_users d @
                         [\<lparr>user_id = uid, username = uc_username user,
                           password_hash = hashed_pw, user_created_at = ts\<rparr>],
                       users_seq := uid\<rparr>
           in (Inr \<lparr>rr_id = uid, rr_username = uc_username user,
                    rr_message = ''User created''\<rparr>, d')))"

record login_response =
  access_token :: token
  token_type :: string

definition login :: "int \<Rightarrow> db \<Rightarrow> UserLogin \<Rightarrow> (exn + login_response) \<times> db" where
  "login utcnow d user =
     (case select_user d (ul_username user) of
        None \<Rightarrow> (Inl (HTTPException 401 (Message ''Invalid credentials'')), d)
      | Some db_user \<Rightarrow>
          if \<not> verify_password (ul_password user) (password_hash db_user)
          then (Inl (HTTPException 401 (Message ''Invalid credentials'')), d)
          else (Inr \<lparr>access_token =
                       create_access_token utcnow
                         \<lparr>claim_user_id = Some (user_id db_user), claim_exp = None\<rparr>,
                     token_type = ''bearer''\<rparr>, d))"

subsection \<open>Notes routes\<close>

definition create_note :: "timestamp \<Rightarrow> db \<Rightarrow> NoteCreate \<Rightarrow> int \<Rightarrow> (exn + Note) \<times> db" where
  "create_note ts d note current_user =
     (let nid = notes_seq d + 1;
          d' = d\<lparr>tbl_notes := tbl_notes d @
                    [\<lparr>note_id = nid, title = nc_title note, content = nc_content note,
                      owner_id = current_user, created_at = ts, updated_at = ts\<rparr>],
                  notes_seq := nid\<rparr>
      in (case select_by_id d' nid of
            None \<Rightarrow> (Inl TypeError, d')
          | Some created_note \<Rightarrow> (Inr created_note, d')))"

text \<open>\<open>ORDER BY updated_at DESC\<close> compares the stored texts byte by byte; the
  order among rows with equal \<open>updated_at\<close> is left open by SQL and is fixed here
  as the reverse of the stable ascending sort.\<close>

definition get_notes :: "db \<Rightarrow> int \<Rightarrow> (exn + Note list) \<times> db" where
  "get_notes d current_user =
     (Inr (rev (sort_key updated_at (filter (\<lambda>n. owner_id n = current_user) (tbl_notes d)))), d)"

definition get_note :: "db \<Rightarrow> int \<Rightarrow> int \<Rightarrow> (exn + Note) \<times> db" where
  "get_note d nid current_user =
     (case select_owned d nid current_user of
        None \<Rightarrow> (Inl (HTTPException 404 (Message ''Note not found'')), d)
      | Some note \<Rightarrow> (Inr note, d))"

definition update_note ::
  "timestamp \<Rightarrow> db \<Rightarrow> int \<Rightarrow> NoteUpdate \<Rightarrow> int \<Rightarrow> (exn + Note) \<times> db" where
  "update_note ts d nid note_update current_user =
     (case select_owned d nid current_user of
        None \<Rightarrow> (Inl (HTTPException 404 (Message ''Note not found'')), d)
      | Some current_note \<Rightarrow>
          (let db_updated_at = updated_at current_note;
               client_updated_at = nu_updated_at note_update
           in if db_updated_at \<noteq> client_updated_at
              then (Inl (HTTPException 409 (Conflict
                      \<lparr>ce_error = ''conflict'',
                       ce_message = ''Note has been updated by another user. Please resolve conflicts.'',
                       ce_current_note = current_note,
                       ce_your_changes = [(''title'', nu_title note_update),
                                       (''content'', nu_content note_update)]\<rparr>)), d)
              else (let d' = d\<lparr>tbl_notes := sql_update_note ts (nu_title note_update)
                                   (nu_content note_update) nid current_user (tbl_notes d)\<rparr>
                    in (case select_by_id d' nid of
                          None \<Rightarrow> (Inl TypeError, d')
                        | Some updated_note \<Rightarrow> (Inr updated_note, d')))))"

definition delete_note :: "db \<Rightarrow> int \<Rightarrow> int \<Rightarrow> (exn + string) \<times> db" where
  "delete_note d nid current_user =
     (case select_owned d nid current_user of
        None \<Rightarrow> (Inl (HTTPException 404 (Message ''Note not found'')), d)
      | Some note \<Rightarrow>
          (Inr ''Note deleted successfully'',
           d\<lparr>tbl_notes := sql_delete_note nid current_user (tbl_notes d)\<rparr>))"


subsection \<open>The schema's constraints and the reachable states\<close>

text \<open>\<open>id INTEGER PRIMARY KEY AUTOINCREMENT\<close> in both tables and
  \<open>username VARCHAR(50) UNIQUE\<close>: ids and usernames are distinct, and no id is
  above its table's \<open>sqlite_sequence\<close> entry. The foreign key of \<open>owner_id\<close> is
  not part of it: SQLite enforces foreign keys only under
  \<open>PRAGMA foreign_keys = ON\<close>, which the service never issues.\<close>

definition db_ok :: "db \<Rightarrow> bool" where
  "db_ok d \<longleftrightarrow>
     distinct (map note_id (tbl_notes d)) \<and> list_all (\<lambda>n. note_id n \<le> notes_seq d) (tbl_notes d) \<and>
     distinct (map user_id (tbl_users d)) \<and> list_all (\<lambda>u. user_id u \<le> users_seq d) (tbl_users d) \<and>
     distinct (map username (tbl_users d))"

text \<open>One request: any handler, with any arguments, run on the database.\<close>

inductive step :: "db \<Rightarrow> db \<Rightarrow> bool" where
  step_register: "step d (snd (register gensalt ts d user))"
| step_login: "step d (snd (login utcnow d ulogin))"
| step_create_note: "step d (snd (create_note ts d note current_user))"
| step_get_notes: "step d (snd (get_notes d current_user))"
| step_get_note: "step d (snd (get_note d nid current_user))"
| step_update_note: "step d (snd (update_note ts d nid note_update current_user))"
| step_delete_note: "step d (snd (delete_note d nid current_user))"

subsection \<open>Sample states\<close>

text \<open>\<open>alice\<close> and \<open>bob\<close> register on the fresh database, in this order, and
  alice creates one note.\<close>

definition t0 :: timestamp where
  "t0 = ''2024-01-01 00:00:00''"

definition t1 :: timestamp where
  "t1 = ''2024-01-01 00:00:05''"

definition note_A :: Note where
  "note_A = \<lparr>note_id = 1, title = ''A'', content = ''x'', owner_id = 1,
              created_at = t0, updated_at = t0\<rparr>"

definition users_db :: db where
  "users_db =
     snd (register ''s2'' t0
            (snd (register ''s1'' t0 init_db \<lparr>uc_username = ''alice'', uc_password = ''pw-a''\<rparr>))
            \<lparr>uc_username = ''bob'', uc_password = ''pw-b''\<rparr>)"

definition sample_db :: db where
  "sample_db = snd (create_note t0 users_db \<lparr>nc_title = ''A'', nc_content = ''x''\<rparr> 1)"

text \<open>Then bob creates a note of his own.\<close>

definition note_B :: Note where
  "note_B = \<lparr>note_id = 2, title = ''B'', content = ''b'', owner_id = 2,
              created_at = t0, updated_at = t0\<rparr>"

definition two_notes_db :: db where
  "two_notes_db = snd (create_note t0 sample_db \<lparr>nc_title = ''B'', nc_content = ''b''\<rparr> 2)"

section \<open>Properties\<close>

subsection \<open>The queries and the update statement\<close>

lemma users_db_eq:
  "users_db =
     \<lparr>tbl_users = [\<lparr>user_id = 1, username = ''alice'', password_hash = (''s1'', ''pw-a''),
                     user_created_at = t0\<rparr>,
                   \<lparr>user_id = 2, username = ''bob'', password_hash = (''s2'', ''pw-b''),
                     user_created_at = t0\<rparr>],
      tbl_notes = [], users_seq = 2, notes_seq = 0\<rparr>"
  by (simp add: users_db_def register_def select_user_def init_db_def hash_password_def
      hashpw_def)

lemma sample_db_eq:
  "sample_db = users_db\<lparr>tbl_notes := [note_A], notes_seq := 1\<rparr>"
  by (simp add: sample_db_def create_note_def select_by_id_def users_db_eq note_A_def)

lemma sample_db_simps:
  "tbl_notes sample_db = [note_A]" "notes_seq sample_db = 1"
  "tbl_users sample_db = tbl_users users_db" "users_seq sample_db = 2"
  by (simp_all add: sample_db_eq users_db_eq)


lemma select_owned_SomeD:
  "select_owned d nid uid = Some n \<Longrightarrow>
     n \<in> set (tbl_notes d) \<and> note_id n = nid \<and> owner_id n = uid"
  by (auto simp: select_owned_def find_Some_iff)

text \<open>Every row the statement updated has the id of the request, so the trigger
  runs with the same \<open>NEW.id\<close> each time and its runs collapse into one.\<close>

lemma fold_stamp:
  assumes "\<forall>h \<in> set hs. note_id h = nid"
  shows "fold (update_notes_timestamp ts) hs rows =
         (if hs = [] then rows
          else map (\<lambda>n. if note_id n = nid then n\<lparr>updated_at := ts\<rparr> else n) rows)"
  using assms
proof (induction hs arbitrary: rows)
  case Nil
  then show ?case by simp
next
  case (Cons h hs)
  then show ?case
    by (auto simp: update_notes_timestamp_def)
qed

lemma sql_update_note_eq:
  "sql_update_note ts t c nid uid rows =
     (if \<exists>n \<in> set rows. note_id n = nid \<and> owner_id n = uid
      then map (\<lambda>n. if note_id n = nid
                     then (if owner_id n = uid
                           then n\<lparr>title := t, content := c, updated_at := ts\<rparr>
                           else n\<lparr>updated_at := ts\<rparr>)
                     else n) rows
      else rows)"
proof -
  let ?hit = "\<lambda>n::Note. note_id n = nid \<and> owner_id n = uid"
  let ?rows1 = "map (\<lambda>n. if ?hit n then n\<lparr>title := t, content := c\<rparr> else n) rows"
  have ids: "\<forall>h \<in> set (filter ?hit ?rows1). note_id h = nid" by auto
  have emp: "filter ?hit ?rows1 = [] \<longleftrightarrow> \<not> (\<exists>n \<in> set rows. ?hit n)"
    by (induction rows) auto
  have nochange: "\<not> (\<exists>n \<in> set rows. ?hit n) \<Longrightarrow> ?rows1 = rows"
    by (induction rows) auto
  show ?thesis
    unfolding sql_update_note_def Let_def
    using emp nochange by (auto simp: fold_stamp [OF ids])
qed

subsection \<open>What a successful update does\<close>

text \<open>A call of \<open>update_note\<close> that returns a note found the caller's row with
  the marker the caller sent, rewrote the table with the update statement and its
  trigger, and read the returned note back by id.\<close>

lemma update_note_InrD:
  assumes "update_note ts d nid upd uid = (Inr n', d')"
  shows "\<exists>n. select_owned d nid uid = Some n \<and> updated_at n = nu_updated_at upd"
    and "d' = d\<lparr>tbl_notes := map (\<lambda>n. if note_id n = nid
                     then (if owner_id n = uid
                           then n\<lparr>title := nu_title upd, content := nu_content upd, updated_at := ts\<rparr>
                           else n\<lparr>updated_at := ts\<rparr>)
                     else n) (tbl_notes d)\<rparr>"
    and "select_by_id d' nid = Some n'"
proof -
  from assms obtain n where n: "select_owned d nid uid = Some n"
    by (cases "select_owned d nid uid") (simp_all add: update_note_def)
  with assms have m: "updated_at n = nu_updated_at upd"
    by (cases "updated_at n = nu_updated_at upd") (simp_all add: update_note_def Let_def)
  from n m show "\<exists>n. select_owned d nid uid = Some n \<and> updated_at n = nu_updated_at upd"
    by blast
  from n have ex: "\<exists>n \<in> set (tbl_notes d). note_id n = nid \<and> owner_id n = uid"
    using select_owned_SomeD by blast
  let ?d' = "d\<lparr>tbl_notes := sql_update_note ts (nu_title upd) (nu_content upd) nid uid (tbl_notes d)\<rparr>"
  from n m have unf: "update_note ts d nid upd uid =
      (case select_by_id ?d' nid of None \<Rightarrow> (Inl TypeError, ?d') | Some u \<Rightarrow> (Inr u, ?d'))"
    by (simp add: update_note_def Let_def)
  have eq: "(case select_by_id ?d' nid of None \<Rightarrow> (Inl TypeError, ?d')
      | Some u \<Rightarrow> (Inr u, ?d')) = (Inr n', d')"
    using assms unfolding unf .
  have r: "d' = ?d' \<and> select_by_id ?d' nid = Some n'"
  proof (cases "select_by_id ?d' nid")
    case None
    with eq show ?thesis by simp
  next
    case (Some u)
    from eq [unfolded Some option.case] have "u = n'" "?d' = d'"
      by (simp_all only: prod.inject sum.inject)
    with Some show ?thesis by (simp only:)
  qed
  from r ex show "d' = d\<lparr>tbl_notes := map (\<lambda>n. if note_id n = nid
                     then (if owner_id n = uid
                           then n\<lparr>title := nu_title upd, content := nu_content upd, updated_at := ts\<rparr>
                           else n\<lparr>updated_at := ts\<rparr>)
                     else n) (tbl_notes d)\<rparr>"
    by (simp add: sql_update_note_eq)
  from r show "select_by_id d' nid = Some n'" by simp
qed

lemma update_note_Inr_stamp:
  assumes "update_note ts d nid upd uid = (Inr n', d')"
  shows "updated_at n' = ts \<and> select_by_id d' nid = Some n'
       \<and> list_all (\<lambda>m. note_id m = nid \<longrightarrow> updated_at m = ts) (tbl_notes d')"
proof -
  note d' = update_note_InrD(2) [OF assms]
  have all: "list_all (\<lambda>m. note_id m = nid \<longrightarrow> updated_at m = ts) (tbl_notes d')"
    by (simp add: d' list.pred_map comp_def list.pred_True)
  from update_note_InrD(3) [OF assms] have "n' \<in> set (tbl_notes d')" "note_id n' = nid"
    by (auto simp: select_by_id_def find_Some_iff)
  with all have "updated_at n' = ts" by (simp add: list_all_iff)
  with all update_note_InrD(3) [OF assms] show ?thesis by simp
qed

lemma find_map_option:
  "find P (map f xs) = map_option f (find (\<lambda>x. P (f x)) xs)"
  by (induction xs) auto

lemma distinct_find_id:
  assumes "distinct (map note_id rows)"
    and "find (\<lambda>n. note_id n = nid \<and> owner_id n = uid) rows = Some n"
  shows "find (\<lambda>n. note_id n = nid) rows = Some n"
  using assms
proof (induction rows)
  case Nil
  then show ?case by simp
next
  case (Cons r rows)
  show ?case
  proof (cases "note_id r = nid \<and> owner_id r = uid")
    case True
    with Cons.prems show ?thesis by simp
  next
    case False
    with Cons.prems have f: "find (\<lambda>n. note_id n = nid \<and> owner_id n = uid) rows = Some n"
      by simp
    then have "n \<in> set rows" "note_id n = nid"
      by (auto simp: find_Some_iff)
    with Cons.prems(1) have "note_id r \<noteq> nid" by auto
    moreover from Cons.prems(1) have "distinct (map note_id rows)" by simp
    ultimately show ?thesis using Cons.IH f by simp
  qed
qed

lemma update_note_Inr_owned:
  assumes ok: "db_ok d" and u: "update_note ts d nid upd uid = (Inr n', d')"
  shows "select_owned d' nid uid = Some n'"
    and "\<exists>n. select_owned d nid uid = Some n \<and>
             n' = n\<lparr>title := nu_title upd, content := nu_content upd, updated_at := ts\<rparr>"
proof -
  let ?f = "\<lambda>n. if note_id n = nid
                     then (if owner_id n = uid
                           then n\<lparr>title := nu_title upd, content := nu_content upd, updated_at := ts\<rparr>
                           else n\<lparr>updated_at := ts\<rparr>)
                     else n"
  from update_note_InrD(1) [OF u] obtain n where n: "select_owned d nid uid = Some n" by blast
  from ok have dist: "distinct (map note_id (tbl_notes d))" by (simp add: db_ok_def)
  from n have owned: "find (\<lambda>n. note_id n = nid \<and> owner_id n = uid) (tbl_notes d) = Some n"
    by (simp add: select_owned_def)
  from distinct_find_id [OF dist owned]
  have byid: "find (\<lambda>n. note_id n = nid) (tbl_notes d) = Some n" .
  from select_owned_SomeD [OF n] have nn: "note_id n = nid" "owner_id n = uid" by simp_all
  have notes': "tbl_notes d' = map ?f (tbl_notes d)"
    by (subst update_note_InrD(2) [OF u]) simp
  have p1: "(\<lambda>x. note_id (?f x) = nid) = (\<lambda>x. note_id x = nid)" by auto
  have p2: "(\<lambda>x. note_id (?f x) = nid \<and> owner_id (?f x) = uid)
          = (\<lambda>x. note_id x = nid \<and> owner_id x = uid)" by auto
  have "select_by_id d' nid = Some (?f n)"
    unfolding select_by_id_def notes' find_map_option p1 byid by simp
  with update_note_InrD(3) [OF u] have n': "n' = ?f n" by simp
  have "select_owned d' nid uid = Some (?f n)"
    unfolding select_owned_def notes' find_map_option p2 owned by simp
  with n' show "select_owned d' nid uid = Some n'" by simp
  from n n' nn show "\<exists>n. select_owned d nid uid = Some n \<and>
             n' = n\<lparr>title := nu_title upd, content := nu_content upd, updated_at := ts\<rparr>"
    by simp
qed

lemma db_ok_sample: "db_ok sample_db"
  by (simp add: db_ok_def sample_db_simps users_db_eq note_A_def)

lemma update_sample_same_second:
  "update_note t0 sample_db 1 \<lparr>nu_title = ''A'', nu_content = ''y'', nu_updated_at = t0\<rparr> 1 =
     (Inr (note_A\<lparr>content := ''y''\<rparr>), sample_db\<lparr>tbl_notes := [note_A\<lparr>content := ''y''\<rparr>]\<rparr>)"
  by (simp add: update_note_def select_owned_def select_by_id_def sample_db_simps note_A_def
      sql_update_note_def update_notes_timestamp_def)

lemma update_sample_later:
  "update_note t1 sample_db 1 \<lparr>nu_title = ''A'', nu_content = ''y'', nu_updated_at = t0\<rparr> 1 =
     (Inr (note_A\<lparr>content := ''y'', updated_at := t1\<rparr>),
      sample_db\<lparr>tbl_notes := [note_A\<lparr>content := ''y'', updated_at := t1\<rparr>]\<rparr>)"
  by (simp add: update_note_def select_owned_def select_by_id_def sample_db_simps note_A_def
      sql_update_note_def update_notes_timestamp_def)

lemma two_notes_db_eq:
  "two_notes_db = sample_db\<lparr>tbl_notes := [note_A, note_B], notes_seq := 2\<rparr>"
  by (simp add: two_notes_db_def create_note_def select_by_id_def sample_db_simps note_A_def
      note_B_def)

lemma two_notes_db_simps:
  "tbl_notes two_notes_db = [note_A, note_B]" "notes_seq two_notes_db = 2"
  "tbl_users two_notes_db = tbl_users users_db" "users_seq two_notes_db = 2"
  by (simp_all add: two_notes_db_eq sample_db_simps)


lemma update_two_notes:
  "update_note t1 two_notes_db 1 \<lparr>nu_title = ''A'', nu_content = ''y'', nu_updated_at = t0\<rparr> 1 =
     (Inr (note_A\<lparr>content := ''y'', updated_at := t1\<rparr>),
      two_notes_db\<lparr>tbl_notes := [note_A\<lparr>content := ''y'', updated_at := t1\<rparr>, note_B]\<rparr>)"
  by (simp add: update_note_def select_owned_def select_by_id_def two_notes_db_simps note_A_def
      note_B_def sql_update_note_def update_notes_timestamp_def)

subsection \<open>Stale updates are refused\<close>

text \<open>
  C1. When \<open>update_note\<close> finds the note among the caller's own and the marker the
  caller sent is not equal to the stored \<open>updated_at\<close>, nothing is written: the
  database is returned as it was, and the call raises 409 with the stored note under
  \<open>current_note\<close> and the title and content the caller proposed under
  \<open>your_changes\<close>.
\<close>

theorem update_note_conflict:
  assumes "select_owned d nid uid = Some n"
    and "updated_at n \<noteq> nu_updated_at upd"
  shows "update_note ts d nid upd uid =
           (Inl (HTTPException 409 (Conflict
              \<lparr>ce_error = ''conflict'',
               ce_message = ''Note has been updated by another user. Please resolve conflicts.'',
               ce_current_note = n,
               ce_your_changes = [(''title'', nu_title upd), (''content'', nu_content upd)]\<rparr>)), d)"
  using assms by (simp add: update_note_def)

theorem update_note_conflict_witness:
  "select_owned sample_db 1 1 = Some note_A
   \<and> updated_at note_A \<noteq> nu_updated_at \<lparr>nu_title = ''B'', nu_content = ''y'', nu_updated_at = t1\<rparr>
   \<and> update_note t1 sample_db 1 \<lparr>nu_title = ''B'', nu_content = ''y'', nu_updated_at = t1\<rparr> 1 =
       (Inl (HTTPException 409 (Conflict
          \<lparr>ce_error = ''conflict'',
           ce_message = ''Note has been updated by another user. Please resolve conflicts.'',
           ce_current_note = note_A,
           ce_your_changes = [(''title'', ''B''), (''content'', ''y'')]\<rparr>)), sample_db)"
proof -
  have h1: "select_owned sample_db 1 1 = Some note_A"
    by (simp add: select_owned_def sample_db_simps note_A_def)
  have h2: "updated_at note_A \<noteq> nu_updated_at \<lparr>nu_title = ''B'', nu_content = ''y'', nu_updated_at = t1\<rparr>"
    by (simp add: note_A_def t0_def t1_def)
  show ?thesis
    using h1 h2 update_note_conflict [OF h1 h2, of t1] by simp
qed

subsection \<open>Notes of other owners look absent\<close>



subsection \<open>Two updates that believe the same marker\<close>

text \<open>
  C2 as stated does not hold. Alice's note carries the marker \<open>t0\<close>. A first update
  that believes \<open>t0\<close> is applied while the store's clock still reads \<open>t0\<close>: the
  trigger writes \<open>t0\<close> again. A second update that believes \<open>t0\<close> then succeeds
  as well, five seconds later, and overwrites the content \<open>y\<close> of the first with
  \<open>z\<close>; neither caller is told of a conflict.
\<close>

theorem lost_update_counterexample:
  "update_note t0 sample_db 1 \<lparr>nu_title = ''A'', nu_content = ''y'', nu_updated_at = t0\<rparr> 1 =
     (Inr (note_A\<lparr>content := ''y''\<rparr>), sample_db\<lparr>tbl_notes := [note_A\<lparr>content := ''y''\<rparr>]\<rparr>)
   \<and> update_note t1 (sample_db\<lparr>tbl_notes := [note_A\<lparr>content := ''y''\<rparr>]\<rparr>) 1
        \<lparr>nu_title = ''A'', nu_content = ''z'', nu_updated_at = t0\<rparr> 1 =
     (Inr (note_A\<lparr>content := ''z'', updated_at := t1\<rparr>),
      sample_db\<lparr>tbl_notes := [note_A\<lparr>content := ''z'', updated_at := t1\<rparr>]\<rparr>)"
  by (simp add: update_sample_same_second)
     (simp add: update_note_def select_owned_def select_by_id_def sample_db_simps note_A_def
      sql_update_note_def update_notes_timestamp_def)

text \<open>
  C2, amended. Let the constraints of the schema hold and let two updates of the same
  note believe the same marker and be handled one after the other. If the first
  succeeds and the store's timestamp at that moment is not the believed marker, the
  second is refused with 409, its \<open>current_note\<close> is the note the first returned,
  and the database stays as the first left it.
\<close>

theorem second_update_conflicts:
  assumes "db_ok d"
    and "update_note ts1 d nid upd1 uid = (Inr n1, d1)"
    and "nu_updated_at upd2 = nu_updated_at upd1"
    and "ts1 \<noteq> nu_updated_at upd1"
  shows "update_note ts2 d1 nid upd2 uid =
           (Inl (HTTPException 409 (Conflict
              \<lparr>ce_error = ''conflict'',
               ce_message = ''Note has been updated by another user. Please resolve conflicts.'',
               ce_current_note = n1,
               ce_your_changes = [(''title'', nu_title upd2), (''content'', nu_content upd2)]\<rparr>)), d1)"
proof -
  have own: "select_owned d1 nid uid = Some n1"
    using update_note_Inr_owned(1) [OF assms(1,2)] .
  from update_note_Inr_stamp [OF assms(2)] have "updated_at n1 = ts1" by simp
  with assms(3,4) have "updated_at n1 \<noteq> nu_updated_at upd2" by simp
  with own show ?thesis by (simp add: update_note_def)
qed

theorem second_update_conflicts_witness:
  "db_ok sample_db
   \<and> update_note t1 sample_db 1 \<lparr>nu_title = ''A'', nu_content = ''y'', nu_updated_at = t0\<rparr> 1 =
       (Inr (note_A\<lparr>content := ''y'', updated_at := t1\<rparr>),
        sample_db\<lparr>tbl_notes := [note_A\<lparr>content := ''y'', updated_at := t1\<rparr>]\<rparr>)
   \<and> update_note t1 (sample_db\<lparr>tbl_notes := [note_A\<lparr>content := ''y'', updated_at := t1\<rparr>]\<rparr>) 1
        \<lparr>nu_title = ''A'', nu_content = ''z'', nu_updated_at = t0\<rparr> 1 =
       (Inl (HTTPException 409 (Conflict
          \<lparr>ce_error = ''conflict'',
           ce_message = ''Note has been updated by another user. Please resolve conflicts.'',
           ce_current_note = note_A\<lparr>content := ''y'', updated_at := t1\<rparr>,
           ce_your_changes = [(''title'', ''A''), (''content'', ''z'')]\<rparr>)),
        sample_db\<lparr>tbl_notes := [note_A\<lparr>content := ''y'', updated_at := t1\<rparr>]\<rparr>)"
proof -
  have ne: "t1 \<noteq> nu_updated_at \<lparr>nu_title = ''A'', nu_content = ''y'', nu_updated_at = t0\<rparr>"
    by (simp add: t0_def t1_def)
  have same: "nu_updated_at \<lparr>nu_title = ''A'', nu_content = ''z'', nu_updated_at = t0\<rparr>
            = nu_updated_at \<lparr>nu_title = ''A'', nu_content = ''y'', nu_updated_at = t0\<rparr>"
    by simp
  from second_update_conflicts [OF db_ok_sample update_sample_later same ne, of t1]
    db_ok_sample update_sample_later
  show ?thesis by simp
qed

subsection \<open>The marker after a successful update\<close>

text \<open>
  C3 as stated does not hold. An update that is applied within the second the marker
  denotes succeeds and leaves the marker as it was: the new value is not strictly
  greater than the old one.
\<close>

theorem marker_tie_counterexample:
  "select_owned sample_db 1 1 = Some note_A
   \<and> update_note t0 sample_db 1 \<lparr>nu_title = ''A'', nu_content = ''y'', nu_updated_at = t0\<rparr> 1 =
       (Inr (note_A\<lparr>content := ''y''\<rparr>), sample_db\<lparr>tbl_notes := [note_A\<lparr>content := ''y''\<rparr>]\<rparr>)
   \<and> \<not> updated_at note_A < updated_at (note_A\<lparr>content := ''y''\<rparr>)"
  by (simp add: update_sample_same_second) (simp add: select_owned_def sample_db_simps note_A_def)

text \<open>
  C3, amended. After a successful \<open>update_note\<close> the marker of the returned and
  stored note is the store's \<open>CURRENT_TIMESTAMP\<close> of the update, whatever the
  caller sent. It is strictly greater than the previous marker exactly when that
  timestamp is later than the marker the caller believed (which, on success, is the
  previous one).
\<close>

theorem update_note_marker:
  assumes "select_owned d nid uid = Some n"
    and "update_note ts d nid upd uid = (Inr n', d')"
  shows "updated_at n' = ts \<and> select_by_id d' nid = Some n'
       \<and> (updated_at n < updated_at n' \<longleftrightarrow> nu_updated_at upd < ts)"
proof -
  from update_note_InrD(1) [OF assms(2)] assms(1) have "updated_at n = nu_updated_at upd"
    by simp
  with update_note_Inr_stamp [OF assms(2)] show ?thesis by simp
qed

theorem update_note_marker_witness:
  "select_owned sample_db 1 1 = Some note_A
   \<and> update_note t1 sample_db 1 \<lparr>nu_title = ''A'', nu_content = ''y'', nu_updated_at = t0\<rparr> 1 =
       (Inr (note_A\<lparr>content := ''y'', updated_at := t1\<rparr>),
        sample_db\<lparr>tbl_notes := [note_A\<lparr>content := ''y'', updated_at := t1\<rparr>]\<rparr>)
   \<and> updated_at (note_A\<lparr>content := ''y'', updated_at := t1\<rparr>) = t1
   \<and> updated_at note_A < updated_at (note_A\<lparr>content := ''y'', updated_at := t1\<rparr>)"
proof -
  have h1: "select_owned sample_db 1 1 = Some note_A"
    by (simp add: select_owned_def sample_db_simps note_A_def)
  have lt: "t0 < t1" by (simp add: t0_def t1_def)
  from update_note_marker [OF h1 update_sample_later] lt h1 update_sample_later
  show ?thesis by simp
qed

subsection \<open>What a successful update leaves alone\<close>

text \<open>
  C9. A successful \<open>update_note\<close> leaves the table of users and both sequence
  counters as they were and keeps the rows of \<open>notes\<close> in place: every row keeps
  its id, owner and \<open>created_at\<close>, and every row with another id is unchanged as a
  whole. So only \<open>title\<close>, \<open>content\<close> and \<open>updated_at\<close> of the target can differ.
\<close>

theorem update_note_frame:
  assumes "update_note ts d nid upd uid = (Inr n', d')"
  shows "tbl_users d' = tbl_users d \<and> users_seq d' = users_seq d \<and> notes_seq d' = notes_seq d
       \<and> length (tbl_notes d') = length (tbl_notes d)
       \<and> (\<forall>i < length (tbl_notes d).
             note_id (tbl_notes d' ! i) = note_id (tbl_notes d ! i)
           \<and> owner_id (tbl_notes d' ! i) = owner_id (tbl_notes d ! i)
           \<and> created_at (tbl_notes d' ! i) = created_at (tbl_notes d ! i)
           \<and> (note_id (tbl_notes d ! i) \<noteq> nid \<longrightarrow> tbl_notes d' ! i = tbl_notes d ! i))"
proof -
  note d' = update_note_InrD(2) [OF assms]
  have "tbl_users d' = tbl_users d" "users_seq d' = users_seq d" "notes_seq d' = notes_seq d"
    by (simp_all add: d')
  moreover have "tbl_notes d' = map (\<lambda>n. if note_id n = nid
                     then (if owner_id n = uid
                           then n\<lparr>title := nu_title upd, content := nu_content upd, updated_at := ts\<rparr>
                           else n\<lparr>updated_at := ts\<rparr>)
                     else n) (tbl_notes d)"
    by (subst d') simp
  ultimately show ?thesis by simp
qed

theorem update_note_frame_witness:
  "update_note t1 two_notes_db 1 \<lparr>nu_title = ''A'', nu_content = ''y'', nu_updated_at = t0\<rparr> 1 =
     (Inr (note_A\<lparr>content := ''y'', updated_at := t1\<rparr>),
      two_notes_db\<lparr>tbl_notes := [note_A\<lparr>content := ''y'', updated_at := t1\<rparr>, note_B]\<rparr>)
   \<and> tbl_users (two_notes_db\<lparr>tbl_notes := [note_A\<lparr>content := ''y'', updated_at := t1\<rparr>, note_B]\<rparr>)
       = tbl_users two_notes_db
   \<and> tbl_notes (two_notes_db\<lparr>tbl_notes := [note_A\<lparr>content := ''y'', updated_at := t1\<rparr>, note_B]\<rparr>) ! 1
       = tbl_notes two_notes_db ! 1
   \<and> created_at (tbl_notes (two_notes_db\<lparr>tbl_notes := [note_A\<lparr>content := ''y'', updated_at := t1\<rparr>, note_B]\<rparr>) ! 0)
       = created_at (tbl_notes two_notes_db ! 0)"
proof -
  note fr = update_note_frame [OF update_two_notes]
  have len: "(1::nat) < length (tbl_notes two_notes_db)" "(0::nat) < length (tbl_notes two_notes_db)"
    by (simp_all add: two_notes_db_simps)
  have other: "note_id (tbl_notes two_notes_db ! 1) \<noteq> 1"
    by (simp add: two_notes_db_simps note_B_def)
  from fr len other update_two_notes show ?thesis by blast
qed

subsection \<open>Requests keep the schema's constraints\<close>


lemma sql_update_note_ids:
  "map note_id (sql_update_note ts t c nid uid rows) = map note_id rows"
  by (simp add: sql_update_note_eq comp_def)

lemma update_note_snd:
  "tbl_users (snd (update_note ts d nid upd uid)) = tbl_users d"
  "users_seq (snd (update_note ts d nid upd uid)) = users_seq d"
  "notes_seq (snd (update_note ts d nid upd uid)) = notes_seq d"
  "map note_id (tbl_notes (snd (update_note ts d nid upd uid))) = map note_id (tbl_notes d)"
  by (simp_all add: update_note_def Let_def sql_update_note_ids split: option.split)


lemma login_snd: "snd (login utcnow d user) = d"
  by (simp add: login_def split: option.split)

lemma create_note_snd:
  "snd (create_note ts d note uid) =
     d\<lparr>tbl_notes := tbl_notes d @
          [\<lparr>note_id = notes_seq d + 1, title = nc_title note, content = nc_content note,
            owner_id = uid, created_at = ts, updated_at = ts\<rparr>],
       notes_seq := notes_seq d + 1\<rparr>"
  by (simp add: create_note_def Let_def split: option.split)

lemma get_snd: "snd (get_notes d uid) = d" "snd (get_note d nid uid) = d"
  by (simp_all add: get_notes_def get_note_def split: option.split)

lemma delete_note_snd:
  "tbl_users (snd (delete_note d nid uid)) = tbl_users d"
  "users_seq (snd (delete_note d nid uid)) = users_seq d"
  "notes_seq (snd (delete_note d nid uid)) = notes_seq d"
  "tbl_notes (snd (delete_note d nid uid)) =
     (case select_owned d nid uid of None \<Rightarrow> tbl_notes d
      | Some _ \<Rightarrow> filter (\<lambda>n. \<not> (note_id n = nid \<and> owner_id n = uid)) (tbl_notes d))"
  by (simp_all add: delete_note_def sql_delete_note_def split: option.split)




lemma select_user_None: "select_user d name = None \<longleftrightarrow> name \<notin> username ` set (tbl_users d)"
  by (auto simp: select_user_def find_None_iff)

lemma db_ok_register:
  assumes "db_ok d"
  shows "db_ok (snd (register gensalt ts d user))"
proof (cases "select_user d (uc_username user)")
  case None
  from assms have "\<forall>u \<in> set (tbl_users d). user_id u \<le> users_seq d"
    by (simp add: db_ok_def list_all_iff)
  then have fresh: "users_seq d + 1 \<notin> user_id ` set (tbl_users d)" by auto
  from None have "uc_username user \<notin> username ` set (tbl_users d)"
    by (simp add: select_user_None)
  with assms fresh None show ?thesis
    by (auto simp: register_def Let_def db_ok_def list_all_iff)
next
  case (Some a)
  with assms show ?thesis by (simp add: register_def)
qed

lemma db_ok_create_note:
  assumes "db_ok d"
  shows "db_ok (snd (create_note ts d nc uid))"
proof -
  from assms have "\<forall>n \<in> set (tbl_notes d). note_id n \<le> notes_seq d"
    by (simp add: db_ok_def list_all_iff)
  then have "notes_seq d + 1 \<notin> note_id ` set (tbl_notes d)" by auto
  with assms show ?thesis
    by (auto simp: create_note_snd db_ok_def list_all_iff)
qed

lemma db_ok_update_note:
  assumes "db_ok d"
  shows "db_ok (snd (update_note ts d nid upd uid))"
proof -
  let ?d' = "snd (update_note ts d nid upd uid)"
  have ids: "map note_id (tbl_notes ?d') = map note_id (tbl_notes d)"
    by (rule update_note_snd)
  have "list_all (\<lambda>n. note_id n \<le> notes_seq d) (tbl_notes ?d')
      \<longleftrightarrow> (\<forall>i \<in> set (map note_id (tbl_notes ?d')). i \<le> notes_seq d)"
    by (simp add: list_all_iff)
  also have "\<dots> \<longleftrightarrow> list_all (\<lambda>n. note_id n \<le> notes_seq d) (tbl_notes d)"
    unfolding ids by (simp add: list_all_iff)
  finally show ?thesis
    using assms by (simp add: db_ok_def update_note_snd)
qed

lemma db_ok_delete_note:
  assumes "db_ok d"
  shows "db_ok (snd (delete_note d nid uid))"
  using assms
  by (auto simp: db_ok_def delete_note_snd list_all_iff distinct_map_filter split: option.split)

lemma db_ok_step:
  assumes "step d d'" and "db_ok d"
  shows "db_ok d'"
  using assms
  by (cases rule: step.cases)
     (simp_all add: db_ok_register login_snd db_ok_create_note get_snd db_ok_update_note
       db_ok_delete_note)

lemma db_ok_init: "db_ok init_db"
  by (simp add: db_ok_def init_db_def)

lemma db_ok_reachable:
  assumes "rtranclp step init_db d"
  shows "db_ok d"
  using assms by (induction rule: rtranclp_induct) (auto intro: db_ok_init db_ok_step)


subsection \<open>Deleting a note\<close>



subsection \<open>Verifying a token\<close>





subsection \<open>Registration\<close>










subsection \<open>Login\<close>




subsection \<open>Listing notes with a token of nobody\<close>





end
